theory Spec2Isabelle
  imports Main
begin

section \<open>Python strings\<close>

text \<open>
  Python \<open>str\<close> values are modelled as \<open>string\<close>, read as ASCII text: one
  \<open>char\<close> is one code point below 128. The three string methods the program calls
  are written out for that range; characters above it are left alone by every
  one of them.
\<close>

definition py_isspace :: "char \<Rightarrow> bool" where
  \<comment> \<open>\<open>str.isspace\<close> on one ASCII character: TAB, LF, VT, FF, CR, FS, GS, RS, US, SPACE.\<close>
  "py_isspace c = (let n = (of_char c :: nat) in (9 \<le> n \<and> n \<le> 13) \<or> (28 \<le> n \<and> n \<le> 32))"

definition py_rstrip :: "string \<Rightarrow> string" where
  \<comment> \<open>\<open>s.rstrip()\<close>: drop trailing whitespace.\<close>
  "py_rstrip s = rev (dropWhile py_isspace (rev s))"

definition py_strip :: "string \<Rightarrow> string" where
  \<comment> \<open>\<open>s.strip()\<close>, the trimming \<open>int()\<close> does before it reads a literal.\<close>
  "py_strip s = dropWhile py_isspace (py_rstrip s)"

definition py_toupper :: "char \<Rightarrow> char" where
  "py_toupper c = (let n = (of_char c :: nat) in
     if 97 \<le> n \<and> n \<le> 122 then char_of (n - 32) else c)"

definition py_upper :: "string \<Rightarrow> string" where
  \<comment> \<open>\<open>s.upper()\<close>\<close>
  "py_upper s = map py_toupper s"

subsection \<open>\<open>int(s)\<close> on a string\<close>

definition is_digit :: "char \<Rightarrow> bool" where
  "is_digit c = (let n = (of_char c :: nat) in 48 \<le> n \<and> n \<le> 57)"

definition digit_val :: "char \<Rightarrow> nat" where
  "digit_val c = of_char c - 48"

text \<open>
  \<open>int\<close> trims the string, takes one optional sign and then reads decimal digits; a
  single underscore may stand between two digits. Anything else is a \<open>ValueError\<close>.
  (The limit that recent Python versions put on literals of several thousand
  digits is left out.) \<open>py_digits\<close> reads what follows the first digit.
\<close>

fun py_digits :: "nat \<Rightarrow> string \<Rightarrow> nat option" where
  "py_digits acc [] = Some acc"
| "py_digits acc [c] = (if is_digit c then Some (10 * acc + digit_val c) else None)"
| "py_digits acc (c # d # cs) =
     (if is_digit c then py_digits (10 * acc + digit_val c) (d # cs)
      else if c = CHR ''_'' \<and> is_digit d then py_digits acc (d # cs)
      else None)"

definition py_unsigned :: "string \<Rightarrow> nat option" where
  "py_unsigned s = (case s of [] \<Rightarrow> None
     | c # cs \<Rightarrow> if is_digit c then py_digits (digit_val c) cs else None)"

definition py_int :: "string \<Rightarrow> int option" where
  \<comment> \<open>\<open>int(s)\<close>; \<open>None\<close> is the \<open>ValueError\<close>.\<close>
  "py_int s = (case py_strip s of
       [] \<Rightarrow> None
     | c # cs \<Rightarrow>
         if c = CHR ''-'' then map_option (\<lambda>n. - int n) (py_unsigned cs)
         else if c = CHR ''+'' then map_option int (py_unsigned cs)
         else map_option int (py_unsigned (c # cs)))"

section \<open>Colour codes and categories\<close>

definition color_code_lookup :: "string \<Rightarrow> string" where
  "color_code_lookup color_code =
    (if color_code = ''#FFFF79'' \<or> color_code = ''FFFF79'' then ''Apple 1/2/2GS/3''
     else if color_code = ''#81D666'' \<or> color_code = ''81D666'' then ''Lisa''
     else if color_code = ''#95CEFE'' \<or> color_code = ''95CEFE'' then ''Macintosh''
     else if color_code = ''#8BFFA3'' \<or> color_code = ''8BFFA3'' then ''Network Server''
     else if color_code = ''#CCFF99'' \<or> color_code = ''CCFF99'' \<or> color_code = ''#CF9''
       then ''Phones/Tablets/PDAs''
     else if color_code = ''#FFE5E5'' \<or> color_code = ''FFE5E5'' then ''iPod/Consumer Products''
     else if color_code = ''#D8D8F2'' \<or> color_code = ''D8D8F2'' then ''Computer Peripherals''
     else ''N/A'')"

definition row_category :: "string \<Rightarrow> string" where
  \<comment> \<open>\<open>color_code_lookup(row['bgcolor'].rstrip().upper())\<close>\<close>
  "row_category bg = color_code_lookup (py_upper (py_rstrip bg))"

section \<open>The page and the store\<close>

text \<open>
  What \<open>add_25_entries\<close> reads of the parsed page: every \<open>tr\<close> element in document
  order, with its \<open>bgcolor\<close> attribute when it has one, the first \<open>td\<close> below it
  (its \<open>rowspan\<close> attribute, when present, and its text) and the text of the first
  \<open>a\<close> below it. \<open>find\<close> returns \<open>None\<close> when there is no such element.
\<close>

record td_cell =
  rowspan_attr :: "string option"
  td_text :: string

record tr_row =
  bgcolor :: "string option"
  find_td :: "td_cell option"
  find_a :: "string option"

definition find_all_tr_bgcolor :: "tr_row list \<Rightarrow> tr_row list" where
  \<comment> \<open>\<open>soup.find_all('tr', bgcolor=True)\<close>\<close>
  "find_all_tr_bgcolor soup = filter (\<lambda>row. bgcolor row \<noteq> None) soup"

text \<open>
  A stored entry is the dictionary \<open>{"release date": ..., "category": ...}\<close>. The store
  is a Python \<open>dict\<close> from product name to entry; it keeps insertion order, which
  \<open>SQL_update_database\<close> follows, so it is an association list. \<open>dict_get\<close> is
  \<open>data.get(k)\<close> and \<open>dict_set\<close> is \<open>data[k] = v\<close>: a known key keeps its place, a new
  one goes last.
\<close>

record entry_details =
  release_date :: string
  category :: string

type_synonym store = "(string \<times> entry_details) list"

definition dict_get :: "store \<Rightarrow> string \<Rightarrow> entry_details option" where
  "dict_get data k = map_of data k"

fun dict_set :: "store \<Rightarrow> string \<Rightarrow> entry_details \<Rightarrow> store" where
  "dict_set [] k v = [(k, v)]"
| "dict_set ((k', v') # data) k v =
     (if k' = k then (k, v) # data else (k', v') # dict_set data k v)"

datatype error =
    KeyError
  | ValueError
  | AttributeError
  | TypeError
  | OperationalError
  | OSError
  | JSONDecodeError

section \<open>\<open>add_25_entries\<close>\<close>

text \<open>The variables the loop carries from one row to the next.\<close>

record loop_state =
  rowspan :: int
  rowspan_date :: string
  entries_added :: nat
  data :: store

text \<open>
  One pass through the loop body, up to the test of the cap. \<open>row['bgcolor']\<close> raises
  \<open>KeyError\<close> on a row without the attribute (the rows \<open>find_all\<close> selects all have
  it). A row without \<open>td\<close> changes nothing. \<open>int\<close> raises \<open>ValueError\<close> on a \<open>rowspan\<close>
  that is no integer literal, and \<open>row_name.text\<close> raises \<open>AttributeError\<close> when the
  row has no \<open>a\<close>; all of them happen before the store is written.
\<close>

definition read_rowspan :: "loop_state \<Rightarrow> td_cell \<Rightarrow> error + loop_state" where
  \<comment> \<open>\<open>if row_data.has_attr('rowspan'): rowspan = int(...); rowspan_date = ...\<close>\<close>
  "read_rowspan st row_data =
    (case rowspan_attr row_data of
       None \<Rightarrow> Inr st
     | Some a \<Rightarrow>
        (case py_int a of
           None \<Rightarrow> Inl ValueError
         | Some n \<Rightarrow> Inr (st\<lparr>rowspan := n, rowspan_date := py_rstrip (td_text row_data)\<rparr>)))"

definition loop_body :: "loop_state \<Rightarrow> tr_row \<Rightarrow> error + loop_state" where
  "loop_body st row =
    (case bgcolor row of
       None \<Rightarrow> Inl KeyError
     | Some bg \<Rightarrow>
        (let row_category = row_category bg
         in case find_td row of
              None \<Rightarrow> Inr st
            | Some row_data \<Rightarrow>
               (case read_rowspan st row_data of
                  Inl e \<Rightarrow> Inl e
                | Inr st1 \<Rightarrow>
                   (case find_a row of
                      None \<Rightarrow> Inl AttributeError
                    | Some row_name \<Rightarrow>
                       (let entry_name = py_rstrip row_name;
                            entry_details =
                              (if rowspan st1 \<noteq> 0
                               then \<lparr>release_date = rowspan_date st1, category = row_category\<rparr>
                               else \<lparr>release_date = py_rstrip (td_text row_data),
                                     category = row_category\<rparr>);
                            st2 = (if rowspan st1 \<noteq> 0 then st1\<lparr>rowspan := rowspan st1 - 1\<rparr>
                                   else st1)
                        in if dict_get (data st2) entry_name = None
                           then Inr (st2\<lparr>data := dict_set (data st2) entry_name entry_details,
                                         entries_added := entries_added st2 + 1\<rparr>)
                           else Inr st2)))))"

text \<open>
  The loop. The store is changed in place, so the caller sees it also when a row
  raises: the result is the store as it stands, with the exception or the
  returned count.
\<close>

fun add_25_loop :: "loop_state \<Rightarrow> tr_row list \<Rightarrow> store \<times> (error + nat)" where
  "add_25_loop st [] = (data st, Inr (entries_added st))"
| "add_25_loop st (row # table_list) =
     (case loop_body st row of
        Inl e \<Rightarrow> (data st, Inl e)
      | Inr st' \<Rightarrow>
          if entries_added st' \<ge> 25 then (data st', Inr (entries_added st'))
          else add_25_loop st' table_list)"

definition add_25_entries :: "tr_row list \<Rightarrow> store \<Rightarrow> store \<times> (error + nat)" where
  "add_25_entries soup data0 =
     add_25_loop \<lparr>rowspan = 0, rowspan_date = [], entries_added = 0, data = data0\<rparr>
       (find_all_tr_bgcolor soup)"

section \<open>The JSON file\<close>

text \<open>
  The process sees a current directory, the path of the script (\<open>__file__\<close>) and
  files. A file is named by the path string \<open>open\<close> ends up with: two different
  strings are two files (no symbolic links, no \<open>.\<close> or \<open>..\<close> components). A file holds
  either the JSON document of a store, as \<open>write_JSON\<close> writes it, or something
  \<open>json.load\<close> rejects; JSON documents of another shape are left out.
\<close>

datatype file_content = Json_document store | Not_json

record env =
  files :: "string \<rightharpoonup> file_content"
  cwd :: string
  script_file :: string

definition os_path_dirname :: "string \<Rightarrow> string" where
  \<comment> \<open>\<open>posixpath.dirname\<close>: up to the last slash, trailing slashes dropped unless
      nothing else is left.\<close>
  "os_path_dirname p =
    (let head = rev (dropWhile (\<lambda>c. c \<noteq> CHR ''/'') (rev p))
     in if head \<noteq> [] \<and> head \<noteq> replicate (length head) (CHR ''/'')
        then rev (dropWhile (\<lambda>c. c = CHR ''/'') (rev head)) else head)"

definition os_path_join :: "string \<Rightarrow> string \<Rightarrow> string" where
  \<comment> \<open>\<open>posixpath.join\<close> of two components\<close>
  "os_path_join a b =
    (if b \<noteq> [] \<and> hd b = CHR ''/'' then b
     else if a = [] \<or> last a = CHR ''/'' then a @ b
     else a @ CHR ''/'' # b)"

definition resolve :: "env \<Rightarrow> string \<Rightarrow> string" where
  \<comment> \<open>the file a path names: a relative path starts at the current directory\<close>
  "resolve e p = (if p \<noteq> [] \<and> hd p = CHR ''/'' then p else os_path_join (cwd e) p)"

definition open_read :: "env \<Rightarrow> string \<Rightarrow> error + file_content" where
  \<comment> \<open>\<open>open(p, 'r')\<close> and reading it; a missing file raises\<close>
  "open_read e p = (case files e (resolve e p) of None \<Rightarrow> Inl OSError | Some c \<Rightarrow> Inr c)"

definition json_load :: "file_content \<Rightarrow> error + store" where
  "json_load c = (case c of Not_json \<Rightarrow> Inl JSONDecodeError | Json_document d \<Rightarrow> Inr d)"

definition load_JSON :: "env \<Rightarrow> string \<Rightarrow> store" where
  \<comment> \<open>the bare \<open>except:\<close> turns every exception of the body into \<open>dict()\<close>\<close>
  "load_JSON e filename =
    (let source_dir = os_path_dirname (script_file e);
         full_path = os_path_join source_dir filename
     in case open_read e full_path of
          Inl ex \<Rightarrow> []
        | Inr infile \<Rightarrow>
           (case json_load infile of
              Inl ex \<Rightarrow> []
            | Inr d \<Rightarrow> d))"

definition write_JSON :: "env \<Rightarrow> string \<Rightarrow> store \<Rightarrow> env" where
  \<comment> \<open>\<open>open(filename, 'w')\<close>, taken to succeed, then \<open>json.dump\<close>\<close>
  "write_JSON e filename d = e\<lparr>files := (files e)(resolve e filename \<mapsto> Json_document d)\<rparr>"

section \<open>The database\<close>

text \<open>
  The two tables, each absent (\<open>None\<close>) or a list of rows in insertion order.
  \<open>Apple_Categories\<close> has rows \<open>(id, category)\<close>, \<open>Apple_Products\<close> has rows
  \<open>(id, name, release_date, category)\<close>. \<open>id\<close> is the primary key and \<open>category\<close>,
  \<open>name\<close> are declared \<open>UNIQUE\<close>: \<open>INSERT OR IGNORE\<close> skips a row that would repeat
  one of them.
\<close>

type_synonym category_row = "int \<times> string"
type_synonym product_row = "int \<times> string \<times> string \<times> int"

record database =
  Apple_Categories :: "category_row list option"
  Apple_Products :: "product_row list option"

definition create_table_if_not_exists :: "'a list option \<Rightarrow> 'a list" where
  "create_table_if_not_exists t = (case t of None \<Rightarrow> [] | Some rows \<Rightarrow> rows)"

definition categories :: "string list" where
  "categories = [''Apple 1/2/2GS/3'', ''Lisa'', ''Macintosh'', ''Network Server'',
     ''Phones/Tablets/PDAs'', ''iPod/Consumer Products'', ''Computer Peripherals'']"

definition insert_or_ignore_category :: "category_row list \<Rightarrow> category_row \<Rightarrow> category_row list" where
  "insert_or_ignore_category rows r =
    (if list_ex (\<lambda>r'. fst r' = fst r \<or> snd r' = snd r) rows then rows else rows @ [r])"

definition SQL_create_categories :: "database \<Rightarrow> database" where
  "SQL_create_categories db =
    db\<lparr>Apple_Categories :=
         Some (fold (\<lambda>i rows. insert_or_ignore_category rows (int i, categories ! i))
                 [0 ..< length categories]
                 (create_table_if_not_exists (Apple_Categories db)))\<rparr>"

definition next_rowid :: "product_row list \<Rightarrow> int" where
  \<comment> \<open>the id SQLite gives a row inserted without one: 1 in an empty table, else one
      more than the largest in use (below the 64-bit limit)\<close>
  "next_rowid rows = (if rows = [] then 1 else Max (set (map fst rows)) + 1)"

definition insert_or_ignore_product ::
  "product_row list \<Rightarrow> string \<times> string \<times> int \<Rightarrow> product_row list" where
  "insert_or_ignore_product rows r =
    (if list_ex (\<lambda>r'. fst (snd r') = fst r) rows then rows
     else rows @ [(next_rowid rows, r)])"

definition select_category_id :: "database \<Rightarrow> string \<Rightarrow> error + category_row option" where
  \<comment> \<open>\<open>SELECT id FROM Apple_Categories WHERE category = ?\<close> and \<open>fetchone()\<close>\<close>
  "select_category_id db category_string =
    (case Apple_Categories db of
       None \<Rightarrow> Inl OperationalError
     | Some rows \<Rightarrow> Inr (find (\<lambda>r. snd r = category_string) rows))"

text \<open>
  The loop of \<open>SQL_update_database\<close> over the store. \<open>cur.fetchone()[0]\<close> raises
  \<open>TypeError\<close> when no row matches (\<open>fetchone\<close> returns \<open>None\<close>). An exception leaves
  the function before \<open>conn.commit()\<close>.
\<close>

fun update_loop :: "database \<Rightarrow> product_row list \<Rightarrow> store \<Rightarrow> error + product_row list" where
  "update_loop db rows [] = Inr rows"
| "update_loop db rows ((product_name, details) # rest) =
    (case select_category_id db (category details) of
       Inl e \<Rightarrow> Inl e
     | Inr None \<Rightarrow> Inl TypeError
     | Inr (Some r) \<Rightarrow>
         update_loop db
           (insert_or_ignore_product rows (product_name, release_date details, fst r)) rest)"

definition SQL_update_database :: "database \<Rightarrow> store \<Rightarrow> error + database" where
  "SQL_update_database db d =
    (case update_loop db (create_table_if_not_exists (Apple_Products db)) d of
       Inl e \<Rightarrow> Inl e
     | Inr rows \<Rightarrow> Inr (db\<lparr>Apple_Products := Some rows\<rparr>))"

section \<open>Words for the statements\<close>

text \<open>
  The colour tokens the specification lists for the seven categories, without the
  marker \<open>#\<close>. (The source also accepts the short form \<open>#CF9\<close>, with the marker only,
  for the fifth category.)
\<close>

definition color_table :: "(string \<times> string) list" where
  "color_table =
    [(''FFFF79'', ''Apple 1/2/2GS/3''), (''81D666'', ''Lisa''), (''95CEFE'', ''Macintosh''),
     (''8BFFA3'', ''Network Server''), (''CCFF99'', ''Phones/Tablets/PDAs''),
     (''FFE5E5'', ''iPod/Consumer Products''), (''D8D8F2'', ''Computer Peripherals'')]"


text \<open>
  Words for the rows of a span. \<open>declares_span row n date\<close>: the first cell of the row
  has a \<open>rowspan\<close> attribute that \<open>int\<close> reads as \<open>n\<close>, and \<open>date\<close> is the cell's text,
  trimmed. \<open>own_date row\<close> is the trimmed text of the first cell of a row whose first
  cell has no \<open>rowspan\<close> attribute. \<open>entry_name_of row\<close> is the name the loop gives the
  row's entry, and \<open>name_bearing\<close> rows are those the loop can name.
\<close>

definition declares_span :: "tr_row \<Rightarrow> int \<Rightarrow> string \<Rightarrow> bool" where
  "declares_span row n date =
    (case find_td row of
       None \<Rightarrow> False
     | Some c \<Rightarrow>
        (case rowspan_attr c of
           None \<Rightarrow> False
         | Some a \<Rightarrow> py_int a = Some n \<and> py_rstrip (td_text c) = date))"


definition entry_name_of :: "tr_row \<Rightarrow> string" where
  "entry_name_of row = (case find_a row of None \<Rightarrow> [] | Some row_name \<Rightarrow> py_rstrip row_name)"

definition name_bearing :: "tr_row \<Rightarrow> bool" where
  "name_bearing row = (bgcolor row \<noteq> None \<and> find_a row \<noteq> None)"

text \<open>The last step of the loop body: store the entry unless the name is known.\<close>

definition put_new :: "loop_state \<Rightarrow> string \<Rightarrow> entry_details \<Rightarrow> loop_state" where
  "put_new st k v =
    (if dict_get (data st) k = None
     then st\<lparr>data := data st @ [(k, v)], entries_added := Suc (entries_added st)\<rparr>
     else st)"

section \<open>Strings: trimming and upper case\<close>

lemma of_char_py_toupper:
  "(of_char (py_toupper c) :: nat) =
     (if 97 \<le> (of_char c :: nat) \<and> (of_char c :: nat) \<le> 122 then of_char c - 32 else of_char c)"
  by (auto simp: py_toupper_def Let_def)

lemma py_isspace_toupper: "py_isspace (py_toupper c) = py_isspace c"
  unfolding py_isspace_def Let_def of_char_py_toupper by auto

lemma py_rstrip_upper: "py_rstrip (py_upper s) = py_upper (py_rstrip s)"
proof -
  have "py_isspace \<circ> py_toupper = py_isspace"
    by (rule ext) (simp add: py_isspace_toupper)
  then show ?thesis
    by (simp add: py_rstrip_def py_upper_def rev_map dropWhile_map)
qed

lemma py_rstrip_marker: "py_rstrip (CHR ''#'' # s) = CHR ''#'' # py_rstrip s"
proof -
  have "\<not> py_isspace CHR ''#''" by (simp add: py_isspace_def)
  then show ?thesis
    by (simp add: py_rstrip_def dropWhile_append)
qed

lemma py_upper_marker: "py_upper (CHR ''#'' # s) = CHR ''#'' # py_upper s"
  by (simp add: py_upper_def py_toupper_def)

lemma row_category_variant:
  assumes "py_upper v = token" "py_rstrip token = token"
  shows "row_category v = color_code_lookup token"
    and "row_category (CHR ''#'' # v) = color_code_lookup (CHR ''#'' # token)"
  using assms
  by (simp_all add: row_category_def py_rstrip_marker py_upper_marker
        py_rstrip_upper [symmetric])

section \<open>The colour lookup\<close>

text \<open>
  Claim C4. For each of the seven colour tokens of the table, every spelling of it in
  upper or lower case letters, with or without a leading \<open>#\<close>, gets the token's
  category from the lookup as \<open>add_25_entries\<close> applies it to the row's \<open>bgcolor\<close>.
\<close>

theorem color_lookup_case_and_marker_insensitive:
  "\<forall>(token, label) \<in> set color_table. \<forall>v. py_upper v = token \<longrightarrow>
      row_category v = label \<and> row_category (CHR ''#'' # v) = label"
proof -
  have trimmed: "\<forall>(token, label) \<in> set color_table. py_rstrip token = token"
    by (simp add: color_table_def py_rstrip_def py_isspace_def)
  have looked: "\<forall>(token, label) \<in> set color_table.
      color_code_lookup token = label \<and> color_code_lookup (CHR ''#'' # token) = label"
    by (simp add: color_table_def color_code_lookup_def)
  show ?thesis
  proof (intro ballI, clarify)
    fix token label v
    assume m: "(py_upper v, label) \<in> set color_table"
    from trimmed m have t: "py_rstrip (py_upper v) = py_upper v" by fastforce
    from looked m have l: "color_code_lookup (py_upper v) = label"
      "color_code_lookup (CHR ''#'' # py_upper v) = label" by fastforce+
    from row_category_variant [OF refl t] l
    show "row_category v = label \<and> row_category (CHR ''#'' # v) = label" by simp
  qed
qed

theorem color_lookup_case_and_marker_insensitive_witness:
  "py_upper ''ccFf99'' = ''CCFF99'' \<and>
   row_category ''ccFf99'' = ''Phones/Tablets/PDAs'' \<and>
   row_category ''#ccFf99'' = ''Phones/Tablets/PDAs''"
proof -
  have m: "(''CCFF99'', ''Phones/Tablets/PDAs'') \<in> set color_table"
    by (simp add: color_table_def)
  have u: "py_upper ''ccFf99'' = ''CCFF99''"
    by code_simp
  from color_lookup_case_and_marker_insensitive m u show ?thesis
    by fastforce
qed

section \<open>Unknown colours and categories\<close>

lemma find_SomeD: "find P xs = Some x \<Longrightarrow> x \<in> set xs \<and> P x"
  by (induction xs) (auto split: if_splits)

lemma update_loop_unresolved:
  assumes "Apple_Categories db = Some cats"
    and "(product_name, details) \<in> set d"
    and "category details \<notin> snd ` set cats"
  shows "update_loop db rows d = Inl TypeError"
  using assms(2)
proof (induction d arbitrary: rows)
  case Nil
  then show ?case by simp
next
  case (Cons p d)
  obtain k e where p: "p = (k, e)" by (cases p)
  show ?case
  proof (cases "find (\<lambda>r. snd r = category e) cats")
    case None
    then show ?thesis by (simp add: p select_category_id_def assms(1))
  next
    case (Some r)
    then have "r \<in> set cats" "snd r = category e"
      by (auto dest!: find_SomeD)
    then have "category e \<in> snd ` set cats"
      by (metis imageI)
    with assms(3) Cons.prems p have "(product_name, details) \<in> set d" by auto
    with Cons.IH Some show ?thesis by (simp add: p select_category_id_def assms(1))
  qed
qed

text \<open>
  Claim C5. A colour code that is none of the table's tokens, with or without the
  marker, nor the short form \<open>#CF9\<close>, gets the sentinel category \<open>N/A\<close> and no
  exception. The sentinel is not one of the seven categories that
  \<open>SQL_create_categories\<close> stores; and whenever the store holds an entry whose
  category has no row in \<open>Apple_Categories\<close>, \<open>SQL_update_database\<close> ends with the
  \<open>TypeError\<close> of \<open>cur.fetchone()[0]\<close>, which nothing in the function catches.
\<close>

theorem unknown_color_and_unresolved_category:
  "((\<forall>(token, label) \<in> set color_table. color_code \<noteq> token \<and> color_code \<noteq> CHR ''#'' # token)
      \<and> color_code \<noteq> ''#CF9'' \<longrightarrow> color_code_lookup color_code = ''N/A'')
   \<and> ''N/A'' \<notin> set categories
   \<and> (Apple_Categories db = Some cats \<and> (product_name, details) \<in> set d
        \<and> category details \<notin> snd ` set cats \<longrightarrow> SQL_update_database db d = Inl TypeError)"
proof (intro conjI impI)
  assume "(\<forall>(token, label) \<in> set color_table. color_code \<noteq> token \<and> color_code \<noteq> CHR ''#'' # token)
      \<and> color_code \<noteq> ''#CF9''"
  then show "color_code_lookup color_code = ''N/A''"
    by (simp add: color_table_def color_code_lookup_def)
next
  show "''N/A'' \<notin> set categories" by (simp add: categories_def)
next
  assume "Apple_Categories db = Some cats \<and> (product_name, details) \<in> set d
        \<and> category details \<notin> snd ` set cats"
  then have "update_loop db (create_table_if_not_exists (Apple_Products db)) d = Inl TypeError"
    by (blast intro: update_loop_unresolved)
  then show "SQL_update_database db d = Inl TypeError"
    by (simp add: SQL_update_database_def)
qed

theorem unknown_color_and_unresolved_category_witness:
  "color_code_lookup ''ABCDEF'' = ''N/A''
   \<and> SQL_update_database
        (SQL_create_categories \<lparr>Apple_Categories = None, Apple_Products = None\<rparr>)
        [(''Newton'', \<lparr>release_date = ''1993'', category = ''N/A''\<rparr>)] = Inl TypeError"
proof -
  let ?db = "SQL_create_categories \<lparr>Apple_Categories = None, Apple_Products = None\<rparr>"
  let ?cats = "[(0, ''Apple 1/2/2GS/3''), (1, ''Lisa''), (2, ''Macintosh''),
                (3, ''Network Server''), (4, ''Phones/Tablets/PDAs''),
                (5, ''iPod/Consumer Products''), (6, ''Computer Peripherals'')]"
  let ?details = "\<lparr>release_date = ''1993'', category = ''N/A''\<rparr>"
  have c: "(\<forall>(token, label) \<in> set color_table.
              ''ABCDEF'' \<noteq> token \<and> ''ABCDEF'' \<noteq> CHR ''#'' # token) \<and> ''ABCDEF'' \<noteq> ''#CF9''"
    by (simp add: color_table_def)
  have t: "Apple_Categories ?db = Some ?cats"
    by code_simp
  have m: "(''Newton'', ?details) \<in> set [(''Newton'', ?details)]"
    by simp
  have u: "category ?details \<notin> snd ` set ?cats"
    by simp
  from unknown_color_and_unresolved_category
         [of "''ABCDEF''" ?db ?cats "''Newton''" ?details "[(''Newton'', ?details)]"] c t m u
  show ?thesis by blast
qed

section \<open>The store\<close>


lemma dict_set_new: "dict_get d k = None \<Longrightarrow> dict_set d k v = d @ [(k, v)]"
  by (induction d) (auto simp: dict_get_def split: if_splits)

section \<open>One row of the loop\<close>



section \<open>The loop and the store\<close>

lemma loop_body_store:
  assumes "loop_body st row = Inr st'"
  shows "(data st' = data st \<and> entries_added st' = entries_added st)
       \<or> (\<exists>k v. dict_get (data st) k = None \<and> data st' = data st @ [(k, v)]
              \<and> entries_added st' = Suc (entries_added st))"
  using assms
  by (auto simp: loop_body_def read_rowspan_def Let_def dict_set_new
           split: option.splits sum.splits if_splits)

lemma add_25_loop_store:
  assumes "entries_added st < 25"
  shows "\<exists>new. fst (add_25_loop st rows) = data st @ new
      \<and> entries_added st + length new \<le> 25
      \<and> distinct (map fst new)
      \<and> fst ` set new \<inter> fst ` set (data st) = {}
      \<and> (\<forall>n. snd (add_25_loop st rows) = Inr n \<longrightarrow> n = entries_added st + length new)"
  using assms
proof (induction rows arbitrary: st)
  case Nil
  then show ?case by simp
next
  case (Cons row rows)
  show ?case
  proof (cases "loop_body st row")
    case (Inl e)
    then show ?thesis using Cons.prems by simp
  next
    case (Inr st')
    from loop_body_store [OF Inr] consider
        (same) "data st' = data st" "entries_added st' = entries_added st"
      | (added) k v where "dict_get (data st) k = None" "data st' = data st @ [(k, v)]"
          "entries_added st' = Suc (entries_added st)"
      by blast
    then show ?thesis
    proof cases
      case same
      with Cons.prems have "entries_added st' < 25" by simp
      from Cons.IH [OF this] same Inr Cons.prems show ?thesis by simp
    next
      case added
      show ?thesis
      proof (cases "entries_added st' \<ge> 25")
        case True
        with added Cons.prems have "entries_added st' = 25" by simp
        with added Inr show ?thesis
          by (simp add: dict_get_def map_of_eq_None_iff)
      next
        case False
        then have lt: "entries_added st' < 25" by simp
        from Cons.IH [OF lt] obtain new where new:
          "fst (add_25_loop st' rows) = data st' @ new"
          "entries_added st' + length new \<le> 25"
          "distinct (map fst new)"
          "fst ` set new \<inter> fst ` set (data st') = {}"
          "\<forall>n. snd (add_25_loop st' rows) = Inr n \<longrightarrow> n = entries_added st' + length new"
          by blast
        from added(1) have k: "k \<notin> fst ` set (data st)"
          by (simp add: dict_get_def map_of_eq_None_iff)
        have "fst (add_25_loop st (row # rows)) = data st @ ((k, v) # new)"
          using Inr False new(1) added(2) by simp
        moreover have "entries_added st + length ((k, v) # new) \<le> 25"
          using new(2) added(3) by simp
        moreover have "distinct (map fst ((k, v) # new))"
          using new(3,4) added(2) by auto
        moreover have "fst ` set ((k, v) # new) \<inter> fst ` set (data st) = {}"
          using new(4) added(2) k by auto
        moreover have "\<forall>n. snd (add_25_loop st (row # rows)) = Inr n \<longrightarrow>
            n = entries_added st + length ((k, v) # new)"
          using Inr False new(5) added(3) by simp
        ultimately show ?thesis by blast
      qed
    qed
  qed
qed

lemma add_25_entries_store:
  "\<exists>new. fst (add_25_entries soup d) = d @ new
      \<and> length new \<le> 25
      \<and> distinct (map fst new)
      \<and> fst ` set new \<inter> fst ` set d = {}
      \<and> (\<forall>n. snd (add_25_entries soup d) = Inr n \<longrightarrow> n = length new)"
  using add_25_loop_store
    [of "\<lparr>rowspan = 0, rowspan_date = [], entries_added = 0, data = d\<rparr>" "find_all_tr_bgcolor soup"]
  by (simp add: add_25_entries_def)

text \<open>
  Claim C2. Whatever the page and the store, \<open>add_25_entries\<close> leaves the store as it
  was followed by at most 25 new entries, also when it stops with an exception, and
  the number it returns is the number of entries it added.
\<close>

theorem at_most_25_added:
  "\<exists>new. fst (add_25_entries soup d) = d @ new \<and> length new \<le> 25
      \<and> (\<forall>n. snd (add_25_entries soup d) = Inr n \<longrightarrow> n = length new)"
  using add_25_entries_store [of soup d] by blast

theorem at_most_25_added_witness:
  "length (fst (add_25_entries
       (map (\<lambda>i. \<lparr>bgcolor = Some ''81D666'',
                  find_td = Some \<lparr>rowspan_attr = None, td_text = ''1983''\<rparr>,
                  find_a = Some (replicate (Suc i) CHR ''a'')\<rparr>) [0 ..< 26]) [])) = 25
   \<and> snd (add_25_entries
       (map (\<lambda>i. \<lparr>bgcolor = Some ''81D666'',
                  find_td = Some \<lparr>rowspan_attr = None, td_text = ''1983''\<rparr>,
                  find_a = Some (replicate (Suc i) CHR ''a'')\<rparr>) [0 ..< 26]) []) = Inr 25"
proof -
  let ?soup = "map (\<lambda>i. \<lparr>bgcolor = Some ''81D666'',
                  find_td = Some \<lparr>rowspan_attr = None, td_text = ''1983''\<rparr>,
                  find_a = Some (replicate (Suc i) CHR ''a'')\<rparr>) [0 ..< 26]"
  have r: "snd (add_25_entries ?soup []) = Inr 25"
    by code_simp
  from at_most_25_added [of ?soup "[]"] obtain new where
    "fst (add_25_entries ?soup []) = [] @ new"
    "\<forall>n. snd (add_25_entries ?soup []) = Inr n \<longrightarrow> n = length new"
    by blast
  with r show ?thesis by simp
qed

text \<open>
  Claim C3. A name that is in the store before \<open>add_25_entries\<close> runs is not among the
  entries the run adds, and \<open>data.get\<close> of that name gives the same entry after the
  run as before (same release date, same category). The run keeps the old
  entries in place and, when the names of the store were distinct, they still are.
\<close>

theorem existing_entries_kept:
  assumes "name \<in> fst ` set d"
  shows "\<exists>new. fst (add_25_entries soup d) = d @ new
      \<and> name \<notin> fst ` set new
      \<and> dict_get (fst (add_25_entries soup d)) name = dict_get d name
      \<and> (distinct (map fst d) \<longrightarrow> distinct (map fst (fst (add_25_entries soup d))))"
proof -
  from add_25_entries_store [of soup d] obtain new where new:
    "fst (add_25_entries soup d) = d @ new" "distinct (map fst new)"
    "fst ` set new \<inter> fst ` set d = {}"
    by blast
  from assms new(3) have n: "name \<notin> fst ` set new" by blast
  from assms have "map_of d name \<noteq> None"
    by (simp add: map_of_eq_None_iff)
  then have "dict_get (d @ new) name = dict_get d name"
    by (auto simp: dict_get_def map_add_def split: option.splits)
  moreover have "distinct (map fst d) \<longrightarrow> distinct (map fst (d @ new))"
    using new(2,3) by auto
  ultimately show ?thesis using new(1) n by auto
qed

theorem existing_entries_kept_witness:
  "''Lisa'' \<in> fst ` set [(''Lisa'', \<lparr>release_date = ''1983'', category = ''Lisa''\<rparr>)]
   \<and> dict_get (fst (add_25_entries
        [\<lparr>bgcolor = Some ''FFFF79'',
          find_td = Some \<lparr>rowspan_attr = None, td_text = ''1999''\<rparr>,
          find_a = Some ''Lisa''\<rparr>,
         \<lparr>bgcolor = Some ''81D666'',
          find_td = Some \<lparr>rowspan_attr = None, td_text = ''1984''\<rparr>,
          find_a = Some ''Lisa 2''\<rparr>]
        [(''Lisa'', \<lparr>release_date = ''1983'', category = ''Lisa''\<rparr>)])) ''Lisa''
      = Some \<lparr>release_date = ''1983'', category = ''Lisa''\<rparr>
   \<and> distinct (map fst (fst (add_25_entries
        [\<lparr>bgcolor = Some ''FFFF79'',
          find_td = Some \<lparr>rowspan_attr = None, td_text = ''1999''\<rparr>,
          find_a = Some ''Lisa''\<rparr>,
         \<lparr>bgcolor = Some ''81D666'',
          find_td = Some \<lparr>rowspan_attr = None, td_text = ''1984''\<rparr>,
          find_a = Some ''Lisa 2''\<rparr>]
        [(''Lisa'', \<lparr>release_date = ''1983'', category = ''Lisa''\<rparr>)])))"
proof -
  let ?d = "[(''Lisa'', \<lparr>release_date = ''1983'', category = ''Lisa''\<rparr>)]"
  let ?soup = "[\<lparr>bgcolor = Some ''FFFF79'',
          find_td = Some \<lparr>rowspan_attr = None, td_text = ''1999''\<rparr>,
          find_a = Some ''Lisa''\<rparr>,
         \<lparr>bgcolor = Some ''81D666'',
          find_td = Some \<lparr>rowspan_attr = None, td_text = ''1984''\<rparr>,
          find_a = Some ''Lisa 2''\<rparr>]"
  have m: "''Lisa'' \<in> fst ` set ?d" by simp
  have g: "dict_get ?d ''Lisa'' = Some \<lparr>release_date = ''1983'', category = ''Lisa''\<rparr>"
    by (simp add: dict_get_def)
  have "distinct (map fst ?d)" by simp
  with existing_entries_kept [OF m, of ?soup] g m show ?thesis by auto
qed

section \<open>Spans of rows\<close>



lemma loop_body_head:
  assumes "declares_span row n date" "n \<noteq> 0" "name_bearing row"
  shows "\<exists>bg. bgcolor row = Some bg \<and> loop_body st row =
    Inr (put_new (st\<lparr>rowspan := n - 1, rowspan_date := date\<rparr>) (entry_name_of row)
          \<lparr>release_date = date, category = row_category bg\<rparr>)"
  using assms
  by (auto simp: loop_body_def read_rowspan_def Let_def declares_span_def name_bearing_def
        entry_name_of_def put_new_def dict_set_new split: option.splits)


lemma put_new_fields [simp]:
  "rowspan (put_new st k v) = rowspan st"
  "rowspan_date (put_new st k v) = rowspan_date st"
  by (simp_all add: put_new_def)








section \<open>The worked example\<close>

text \<open>
  Claim C7. The row with background colour \<open>81D666\<close>, first cell \<open>1983\<close> and link text
  \<open>Lisa\<close>, normalised into an empty store, gives the one entry \<open>Lisa\<close> with release
  date \<open>1983\<close> and category \<open>Lisa\<close>. On a new database, after \<open>SQL_create_categories\<close>,
  \<open>SQL_update_database\<close> with that store leaves the category row \<open>(1, Lisa)\<close> and the
  one product row \<open>(1, Lisa, 1983, 1)\<close>, whose last column is that category's id.
\<close>

theorem lisa_end_to_end:
  "add_25_entries
     [\<lparr>bgcolor = Some ''81D666'',
       find_td = Some \<lparr>rowspan_attr = None, td_text = ''1983''\<rparr>,
       find_a = Some ''Lisa''\<rparr>] []
     = ([(''Lisa'', \<lparr>release_date = ''1983'', category = ''Lisa''\<rparr>)], Inr 1)
   \<and> SQL_update_database
       (SQL_create_categories \<lparr>Apple_Categories = None, Apple_Products = None\<rparr>)
       [(''Lisa'', \<lparr>release_date = ''1983'', category = ''Lisa''\<rparr>)]
     = Inr \<lparr>Apple_Categories =
              Some [(0, ''Apple 1/2/2GS/3''), (1, ''Lisa''), (2, ''Macintosh''),
                    (3, ''Network Server''), (4, ''Phones/Tablets/PDAs''),
                    (5, ''iPod/Consumer Products''), (6, ''Computer Peripherals'')],
            Apple_Products = Some [(1, ''Lisa'', ''1983'', 1)]\<rparr>"
  by code_simp

section \<open>\<open>load_JSON\<close> and \<open>write_JSON\<close>\<close>

text \<open>
  Claim C8. When the file \<open>load_JSON\<close> opens is missing, or holds something that is
  not JSON, \<open>load_JSON\<close> returns the empty dictionary.
\<close>

theorem load_JSON_recovers:
  assumes "files e (resolve e (os_path_join (os_path_dirname (script_file e)) filename)) = None
         \<or> files e (resolve e (os_path_join (os_path_dirname (script_file e)) filename)) = Some Not_json"
  shows "load_JSON e filename = []"
  using assms by (auto simp: load_JSON_def open_read_def json_load_def Let_def)

theorem load_JSON_recovers_witness:
  "load_JSON \<lparr>files = Map.empty, cwd = ''/home/u'', script_file = ''/home/u/apple_scrape.py''\<rparr>
      ''apple_products.json'' = []
   \<and> load_JSON \<lparr>files = [''/home/u/apple_products.json'' \<mapsto> Not_json], cwd = ''/home/u'',
        script_file = ''/home/u/apple_scrape.py''\<rparr> ''apple_products.json'' = []"
proof -
  let ?e1 = "\<lparr>files = Map.empty, cwd = ''/home/u'', script_file = ''/home/u/apple_scrape.py''\<rparr>"
  let ?e2 = "\<lparr>files = [''/home/u/apple_products.json'' \<mapsto> Not_json], cwd = ''/home/u'',
        script_file = ''/home/u/apple_scrape.py''\<rparr>"
  have p: "os_path_join (os_path_dirname ''/home/u/apple_scrape.py'') ''apple_products.json''
      = ''/home/u/apple_products.json''"
    by code_simp
  have "load_JSON ?e1 ''apple_products.json'' = []"
    using load_JSON_recovers [of ?e1 "''apple_products.json''"] by simp
  moreover have "load_JSON ?e2 ''apple_products.json'' = []"
    using load_JSON_recovers [of ?e2 "''apple_products.json''"] p
    by (simp add: resolve_def)
  ultimately show ?thesis by simp
qed

lemma resolve_write_JSON [simp]: "resolve (write_JSON e f d) p = resolve e p"
  by (simp add: resolve_def write_JSON_def)

lemma script_file_write_JSON [simp]: "script_file (write_JSON e f d) = script_file e"
  by (simp add: write_JSON_def)

lemma files_write_JSON:
  "files (write_JSON e f d) = (files e)(resolve e f \<mapsto> Json_document d)"
  by (simp add: write_JSON_def)

lemma load_JSON_reads:
  "load_JSON e filename =
    (case files e (resolve e (os_path_join (os_path_dirname (script_file e)) filename)) of
       Some (Json_document d) \<Rightarrow> d | _ \<Rightarrow> [])"
  by (simp add: load_JSON_def open_read_def json_load_def Let_def
        split: option.splits file_content.splits)




text \<open>When the script's directory is the current directory, the written store is read back.\<close>

lemma same_directory_round_trip:
  assumes "os_path_dirname (script_file e) = cwd e"
    and "cwd e \<noteq> []" "hd (cwd e) = CHR ''/''"
    and "filename = [] \<or> hd filename \<noteq> CHR ''/''"
  shows "load_JSON (write_JSON e filename d) filename = d"
proof -
  have "hd (os_path_join (cwd e) filename) = CHR ''/''" "os_path_join (cwd e) filename \<noteq> []"
    using assms(2,3,4) by (auto simp: os_path_join_def)
  then have "resolve e (os_path_join (cwd e) filename) = resolve e filename"
    using assms(4) by (auto simp: resolve_def)
  then show ?thesis
    by (simp add: load_JSON_reads assms(1) files_write_JSON)
qed

section \<open>\<open>SQL_update_database\<close>\<close>








end
